theory Spec2Isabelle
  imports Complex_Main
begin

section \<open>JavaScript values\<close>

text \<open>
  The program is TypeScript running on a JavaScript engine.  The values that reach the
  form, the validator and the stored records are \<open>undefined\<close>, \<open>null\<close>, booleans,
  numbers and strings.  \<open>normalizeValue\<close> takes \<open>unknown\<close>, and a record read back
  from storage, or a key that every object inherits, can bring other values: a function,
  given by the text \<open>String(v)\<close> makes of it, and an object or array, given by what
  \<open>Number(v)\<close> and \<open>String(v)\<close> make of it.  Such a conversion throws a
  \<open>TypeError\<close> when the object has no callable \<open>toString\<close> or \<open>valueOf\<close> (what
  \<open>JSON.parse\<close> makes of \<open>{"toString": 1}\<close> is one): that is \<open>None\<close> here.

  A number is an IEEE double: either one of the three non-finite values or a finite
  value, kept here as the rational it denotes (\<open>Finite 0\<close> stands for both zeros).
  Strings are lists of characters; whitespace and letter case are modelled on ASCII.
\<close>

datatype jsnum = Finite rat | NaN | PosInfinity | NegInfinity

datatype error = TypeError

datatype jsval =
    JUndefined
  | JNull
  | JBool bool
  | JNum jsnum
  | JStr string
  | JFun string
  | JObj "jsnum option" "string option"

datatype jstype = TUndefined | TObject | TBoolean | TNumber | TString | TFunction

fun typeof :: "jsval \<Rightarrow> jstype" where
  "typeof JUndefined = TUndefined"
| "typeof JNull = TObject"
| "typeof (JBool b) = TBoolean"
| "typeof (JNum n) = TNumber"
| "typeof (JStr s) = TString"
| "typeof (JFun t) = TFunction"
| "typeof (JObj n s) = TObject"

text \<open>The primitive values: everything but functions and objects.\<close>

fun isPrimitive :: "jsval \<Rightarrow> bool" where
  "isPrimitive (JFun t) = False"
| "isPrimitive (JObj n s) = False"
| "isPrimitive v = True"

text \<open>\<open>Number.isFinite\<close> on a number.\<close>

fun isFinite :: "jsnum \<Rightarrow> bool" where
  "isFinite (Finite q) = True"
| "isFinite NaN = False"
| "isFinite PosInfinity = False"
| "isFinite NegInfinity = False"

text \<open>\<open>Boolean(v)\<close>, which is also the truthiness that \<open>!v\<close> and \<open>v && _\<close> test.\<close>

fun toBoolean :: "jsval \<Rightarrow> bool" where
  "toBoolean JUndefined = False"
| "toBoolean JNull = False"
| "toBoolean (JBool b) = b"
| "toBoolean (JNum n) = (n \<noteq> Finite 0 \<and> n \<noteq> NaN)"
| "toBoolean (JStr s) = (s \<noteq> [])"
| "toBoolean (JFun t) = True"
| "toBoolean (JObj n s) = True"

subsection \<open>Strings\<close>

definition isWhiteSpace :: "char \<Rightarrow> bool" where
  "isWhiteSpace c \<longleftrightarrow>
     c \<in> set [CHR 0x09, CHR 0x0A, CHR 0x0B, CHR 0x0C, CHR 0x0D, CHR '' '']"

text \<open>\<open>String.prototype.trim\<close>.\<close>

definition trim :: "string \<Rightarrow> string" where
  "trim s = rev (dropWhile isWhiteSpace (rev (dropWhile isWhiteSpace s)))"

subsection \<open>String to number\<close>

text \<open>
  \<open>Number(s)\<close> on a string follows the grammar of numeric string literals: surrounding
  whitespace is dropped, the empty string is 0, an optionally signed \<open>Infinity\<close> or
  decimal literal (with optional fraction and exponent) or an unsigned hexadecimal, octal
  or binary integer gives its value, and anything else is \<open>NaN\<close>.  A value too large
  for a double becomes an infinity.
\<close>

definition digitOf :: "int \<Rightarrow> char \<Rightarrow> int option" where
  "digitOf radix c =
     (let n = (of_char c :: int);
          d = (if 48 \<le> n \<and> n \<le> 57 then Some (n - 48)
               else if 97 \<le> n \<and> n \<le> 102 then Some (n - 87)
               else if 65 \<le> n \<and> n \<le> 70 then Some (n - 55)
               else None)
      in case d of
           None \<Rightarrow> None
         | Some k \<Rightarrow> if k < radix then Some k else None)"

fun digitsValue :: "int \<Rightarrow> int \<Rightarrow> string \<Rightarrow> int option" where
  "digitsValue radix acc [] = Some acc"
| "digitsValue radix acc (c # cs) =
     (case digitOf radix c of
        None \<Rightarrow> None
      | Some d \<Rightarrow> digitsValue radix (acc * radix + d) cs)"

definition parseDigits :: "int \<Rightarrow> string \<Rightarrow> int option" where
  "parseDigits radix s = (if s = [] then None else digitsValue radix 0 s)"

definition parseExponent :: "string \<Rightarrow> int option" where
  "parseExponent s =
     (case s of
        [] \<Rightarrow> None
      | c # cs \<Rightarrow>
          if c = CHR ''-'' then map_option uminus (parseDigits 10 cs)
          else if c = CHR ''+'' then parseDigits 10 cs
          else parseDigits 10 s)"

definition parseMantissa :: "string \<Rightarrow> rat option" where
  "parseMantissa s =
     (let whole = takeWhile (\<lambda>c. c \<noteq> CHR ''.'') s;
          rest = dropWhile (\<lambda>c. c \<noteq> CHR ''.'') s
      in if rest = [] then map_option of_int (parseDigits 10 whole)
         else let frac = tl rest
              in if whole = [] \<and> frac = [] then None
                 else (case digitsValue 10 0 (whole @ frac) of
                         None \<Rightarrow> None
                       | Some n \<Rightarrow> Some (of_int n / 10 ^ length frac)))"

definition isExponentMark :: "char \<Rightarrow> bool" where
  "isExponentMark c \<longleftrightarrow> c = CHR ''e'' \<or> c = CHR ''E''"

definition parseDecimal :: "string \<Rightarrow> rat option" where
  "parseDecimal s =
     (let mant = takeWhile (\<lambda>c. \<not> isExponentMark c) s;
          rest = dropWhile (\<lambda>c. \<not> isExponentMark c) s
      in case parseMantissa mant of
           None \<Rightarrow> None
         | Some m \<Rightarrow>
             if rest = [] then Some m
             else (case parseExponent (tl rest) of
                     None \<Rightarrow> None
                   | Some e \<Rightarrow>
                       Some (if 0 \<le> e then m * 10 ^ nat e
                             else m / 10 ^ nat (- e))))"

text \<open>Rounding to a double, as far as finiteness goes: from \<open>2^1024 - 2^970\<close> on, infinity.\<close>

definition toDouble :: "rat \<Rightarrow> jsnum" where
  "toDouble q =
     (if 2 ^ 1024 - 2 ^ 970 \<le> q then PosInfinity
      else if q \<le> - (2 ^ 1024 - 2 ^ 970) then NegInfinity
      else Finite q)"

definition optionToNumber :: "rat option \<Rightarrow> jsnum" where
  "optionToNumber r = (case r of None \<Rightarrow> NaN | Some q \<Rightarrow> toDouble q)"

definition parseUnsigned :: "string \<Rightarrow> jsnum" where
  "parseUnsigned s =
     (if s = ''Infinity'' then PosInfinity else optionToNumber (parseDecimal s))"

fun negate :: "jsnum \<Rightarrow> jsnum" where
  "negate (Finite q) = Finite (- q)"
| "negate NaN = NaN"
| "negate PosInfinity = NegInfinity"
| "negate NegInfinity = PosInfinity"

definition StringToNumber :: "string \<Rightarrow> jsnum" where
  "StringToNumber s =
     (let t = trim s
      in case t of
           [] \<Rightarrow> Finite 0
         | c # cs \<Rightarrow>
             if c = CHR ''0'' \<and> cs \<noteq> [] \<and> hd cs \<in> set ''xX''
               then optionToNumber (map_option of_int (parseDigits 16 (tl cs)))
             else if c = CHR ''0'' \<and> cs \<noteq> [] \<and> hd cs \<in> set ''oO''
               then optionToNumber (map_option of_int (parseDigits 8 (tl cs)))
             else if c = CHR ''0'' \<and> cs \<noteq> [] \<and> hd cs \<in> set ''bB''
               then optionToNumber (map_option of_int (parseDigits 2 (tl cs)))
             else if c = CHR ''-'' then negate (parseUnsigned cs)
             else if c = CHR ''+'' then parseUnsigned cs
             else parseUnsigned t)"

text \<open>\<open>Number(v)\<close>.  The text of a function is no numeric literal.\<close>

fun toNumber :: "jsval \<Rightarrow> error + jsnum" where
  "toNumber JUndefined = Inr NaN"
| "toNumber JNull = Inr (Finite 0)"
| "toNumber (JBool b) = Inr (Finite (if b then 1 else 0))"
| "toNumber (JNum n) = Inr n"
| "toNumber (JStr s) = Inr (StringToNumber s)"
| "toNumber (JFun t) = Inr NaN"
| "toNumber (JObj n s) = (case n of None \<Rightarrow> Inl TypeError | Some x \<Rightarrow> Inr x)"

text \<open>
  \<open>String(v)\<close>.  How the engine writes a number in decimal is a parameter.
\<close>

fun toString :: "(jsnum \<Rightarrow> string) \<Rightarrow> jsval \<Rightarrow> error + string" where
  "toString numberToString JUndefined = Inr ''undefined''"
| "toString numberToString JNull = Inr ''null''"
| "toString numberToString (JBool b) = Inr (if b then ''true'' else ''false'')"
| "toString numberToString (JNum n) = Inr (numberToString n)"
| "toString numberToString (JStr s) = Inr s"
| "toString numberToString (JFun t) = Inr t"
| "toString numberToString (JObj n s) = (case s of None \<Rightarrow> Inl TypeError | Some t \<Rightarrow> Inr t)"

section \<open>Field definitions (\<open>types\<close>)\<close>

datatype FieldType =
  Text | Number | Date | Time | Email | Phone | Textarea | Select | Checkbox

record DataEntryField =
  id_f :: string
  label :: string
  key :: string
  type_f :: FieldType
  required :: bool
  placeholder :: "string option"
  helpText :: "string option"
  options :: "string list option"

section \<open>The value normalizer (\<open>EntryForm.tsx\<close>)\<close>

definition getDefaultValue :: "DataEntryField \<Rightarrow> jsval" where
  "getDefaultValue field =
     (case type_f field of
        Checkbox \<Rightarrow> JBool False
      | _ \<Rightarrow> JStr '''')"

definition normalizeValue :: "DataEntryField \<Rightarrow> jsval \<Rightarrow> error + jsval" where
  "normalizeValue field v =
     (if v = JUndefined \<or> v = JNull then Inr (getDefaultValue field)
      else if type_f field = Checkbox then Inr (JBool (toBoolean v))
      else if type_f field = Number then
        (case toNumber v of
           Inl e \<Rightarrow> Inl e
         | Inr parsed \<Rightarrow> Inr (if isFinite parsed then JNum parsed else JNull))
      else if typeof v = TString then Inr v
      else if typeof v = TNumber then Inr v
      else if typeof v = TBoolean then Inr v
      else (case v of
              JFun t \<Rightarrow> Inr (JStr t)
            | JObj n s \<Rightarrow> (case s of None \<Rightarrow> Inl TypeError | Some t \<Rightarrow> Inr (JStr t))
            | _ \<Rightarrow> Inr v))"

text \<open>
  A thrown \<open>TypeError\<close> is the result \<open>Inl TypeError\<close>.  The last line is
  \<open>return String(value)\<close>: only a value that is neither \<open>undefined\<close>, \<open>null\<close>, a
  string, a number nor a boolean gets there, so it is a function or an object, and
  \<open>String\<close> of it is the text it carries, or throws.
\<close>

section \<open>Records and the application state (\<open>page.tsx\<close>)\<close>

text \<open>
  A record's value set is a plain JavaScript object used as a dictionary: the map holds
  its own properties.  Reading a key, as \<open>values[key]\<close> and the destructuring
  \<open>{ [key]: v, ...rest }\<close> do, gives the own property if there is one, else what every
  plain object inherits from \<open>Object.prototype\<close> under that name, else \<open>undefined\<close>.
  The inherited values are built-in functions (written as V8 writes them) and, under
  \<open>__proto__\<close>, the prototype object itself.  \<open>a ?? b\<close> is \<open>b\<close> when \<open>a\<close> is
  \<open>undefined\<close> or \<open>null\<close>.
\<close>

type_synonym EntryValues = "string \<rightharpoonup> jsval"

record RowEntry =
  id_e :: string
  createdAt :: string
  updatedAt :: string
  values_e :: EntryValues

definition nativeFunction :: "string \<Rightarrow> jsval" where
  "nativeFunction name = JFun (''function '' @ name @ ''() { [native code] }'')"

definition objectPrototype :: "string \<rightharpoonup> jsval" where
  "objectPrototype =
     map_of
       [ (''constructor'', nativeFunction ''Object''),
         (''__defineGetter__'', nativeFunction ''__defineGetter__''),
         (''__defineSetter__'', nativeFunction ''__defineSetter__''),
         (''hasOwnProperty'', nativeFunction ''hasOwnProperty''),
         (''__lookupGetter__'', nativeFunction ''__lookupGetter__''),
         (''__lookupSetter__'', nativeFunction ''__lookupSetter__''),
         (''isPrototypeOf'', nativeFunction ''isPrototypeOf''),
         (''propertyIsEnumerable'', nativeFunction ''propertyIsEnumerable''),
         (''toString'', nativeFunction ''toString''),
         (''valueOf'', nativeFunction ''valueOf''),
         (''toLocaleString'', nativeFunction ''toLocaleString''),
         (''__proto__'', JObj (Some NaN) (Some ''[object Object]'')) ]"

definition getProp :: "EntryValues \<Rightarrow> string \<Rightarrow> jsval" where
  "getProp vs k =
     (case vs k of
        Some v \<Rightarrow> v
      | None \<Rightarrow> (case objectPrototype k of Some v \<Rightarrow> v | None \<Rightarrow> JUndefined))"

definition nullish :: "jsval \<Rightarrow> jsval \<Rightarrow> jsval" where
  "nullish a b = (if a = JUndefined \<or> a = JNull then b else a)"

text \<open>
  A patch is a \<open>Partial<DataEntryField>\<close>: every property may be missing (\<open>None\<close>).
  A property that is optional in \<open>DataEntryField\<close> may also be present with the value
  \<open>undefined\<close> (\<open>Some None\<close>), which the spread \<open>{ ...field, ...patch }\<close> copies.
\<close>

record FieldPatch =
  p_id :: "string option"
  p_label :: "string option"
  p_key :: "string option"
  p_type :: "FieldType option"
  p_required :: "bool option"
  p_placeholder :: "string option option"
  p_helpText :: "string option option"
  p_options :: "string list option option"

definition applyPatch :: "DataEntryField \<Rightarrow> FieldPatch \<Rightarrow> DataEntryField" where
  "applyPatch field patch =
     \<lparr> id_f = (case p_id patch of None \<Rightarrow> id_f field | Some x \<Rightarrow> x),
       label = (case p_label patch of None \<Rightarrow> label field | Some x \<Rightarrow> x),
       key = (case p_key patch of None \<Rightarrow> key field | Some x \<Rightarrow> x),
       type_f = (case p_type patch of None \<Rightarrow> type_f field | Some x \<Rightarrow> x),
       required = (case p_required patch of None \<Rightarrow> required field | Some x \<Rightarrow> x),
       placeholder = (case p_placeholder patch of None \<Rightarrow> placeholder field | Some x \<Rightarrow> x),
       helpText = (case p_helpText patch of None \<Rightarrow> helpText field | Some x \<Rightarrow> x),
       options = (case p_options patch of None \<Rightarrow> options field | Some x \<Rightarrow> x) \<rparr>"

record AppState =
  fields_s :: "DataEntryField list"
  entries :: "RowEntry list"
  editingEntryId :: "string option"

text \<open>
  The state of the page: the two stored lists and the id chosen for editing.  In
  \<open>DEFAULT_FIELDS\<close> the last placeholder ends with an ellipsis character in the source,
  which is left out here.
\<close>

definition DEFAULT_FIELDS :: "DataEntryField list" where
  "DEFAULT_FIELDS =
     [ \<lparr> id_f = ''field-company'', label = ''Company'', key = ''company'', type_f = Text,
         required = True, placeholder = Some ''Acme Incorporated'',
         helpText = Some ''Company or organization associated with this record.'',
         options = None \<rparr>,
       \<lparr> id_f = ''field-contact'', label = ''Primary contact'', key = ''primary-contact'',
         type_f = Text, required = True, placeholder = Some ''Jane Doe'',
         helpText = Some ''Full name of the main point of contact.'', options = None \<rparr>,
       \<lparr> id_f = ''field-email'', label = ''Email address'', key = ''email'', type_f = Email,
         required = True, placeholder = Some ''jane@example.com'', helpText = None,
         options = None \<rparr>,
       \<lparr> id_f = ''field-status'', label = ''Status'', key = ''status'', type_f = Select,
         required = True, placeholder = None,
         helpText = Some ''Track the current state of this record.'',
         options = Some [''New'', ''In Review'', ''Approved'', ''Archived''] \<rparr>,
       \<lparr> id_f = ''field-notes'', label = ''Notes'', key = ''notes'', type_f = Textarea,
         required = False, placeholder = Some ''Add context, blockers, next steps'',
         helpText = None, options = None \<rparr> ]"

definition handleAddField :: "DataEntryField \<Rightarrow> AppState \<Rightarrow> AppState" where
  "handleAddField field st = st\<lparr>fields_s := fields_s st @ [field]\<rparr>"

text \<open>
  The callback that \<open>handleUpdateField\<close> maps over the records:
  \<open>const { [target.key]: oldValue, ...rest } = entry.values\<close>, then
  \<open>{ ...rest, [patch.key]: oldValue ?? "" }\<close>.
\<close>

definition migrateKey :: "string \<Rightarrow> string \<Rightarrow> RowEntry \<Rightarrow> RowEntry" where
  "migrateKey oldKey newKey entry =
     (let oldValue = getProp (values_e entry) oldKey;
          rest = (values_e entry)(oldKey := None)
      in entry\<lparr>values_e := rest(newKey \<mapsto> nullish oldValue (JStr ''''))\<rparr>)"

text \<open>
  \<open>setEntries\<close> is called inside the updater given to \<open>setFields\<close>: both new values
  come out of the one call, so the model returns the new state with both.  The test
  \<open>patch.key && patch.key !== target.key\<close> needs a key that is present and truthy, that
  is, not the empty string.
\<close>

definition handleUpdateField :: "string \<Rightarrow> FieldPatch \<Rightarrow> AppState \<Rightarrow> AppState" where
  "handleUpdateField fieldId patch st =
     (case find (\<lambda>field. id_f field = fieldId) (fields_s st) of
        None \<Rightarrow> st
      | Some target \<Rightarrow>
          st\<lparr> fields_s :=
                map (\<lambda>field. if id_f field = fieldId then applyPatch field patch else field)
                  (fields_s st),
              entries :=
                (case p_key patch of
                   None \<Rightarrow> entries st
                 | Some k \<Rightarrow>
                     if k \<noteq> [] \<and> k \<noteq> key target
                     then map (migrateKey (key target) k) (entries st)
                     else entries st) \<rparr>)"

definition removeKey :: "string \<Rightarrow> RowEntry \<Rightarrow> RowEntry" where
  "removeKey k entry = entry\<lparr>values_e := (values_e entry)(k := None)\<rparr>"

definition handleDeleteField :: "string \<Rightarrow> AppState \<Rightarrow> AppState" where
  "handleDeleteField fieldId st =
     (case find (\<lambda>item. id_f item = fieldId) (fields_s st) of
        None \<Rightarrow> st
      | Some fieldToDelete \<Rightarrow>
          st\<lparr> fields_s := filter (\<lambda>item. id_f item \<noteq> fieldId) (fields_s st),
              entries := map (removeKey (key fieldToDelete)) (entries st) \<rparr>)"





section \<open>The entry validator (\<open>EntryForm.tsx\<close>)\<close>

type_synonym ValidationErrors = "string \<rightharpoonup> string"

text \<open>The body of the \<open>forEach\<close> in \<open>validate\<close>, on the error object built so far.\<close>

definition validateField ::
  "EntryValues \<Rightarrow> ValidationErrors \<Rightarrow> DataEntryField \<Rightarrow> ValidationErrors" where
  "validateField formValues nextErrors field =
     (let v = getProp formValues (key field)
      in if \<not> required field then nextErrors
         else if type_f field = Checkbox then
           (if \<not> toBoolean v
            then nextErrors(key field \<mapsto> ''This checkbox must be selected.'')
            else nextErrors)
         else if v = JUndefined \<or> v = JNull \<or> v = JStr ''''
           then nextErrors(key field \<mapsto> ''This field is required.'')
         else nextErrors)"

text \<open>
  \<open>validate\<close> stores the error object with \<open>setErrors\<close> and returns whether it has no
  key; the model returns both.
\<close>

definition validate :: "DataEntryField list \<Rightarrow> EntryValues \<Rightarrow> ValidationErrors \<times> bool" where
  "validate orderedFields formValues =
     (let nextErrors = foldl (validateField formValues) Map.empty orderedFields
      in (nextErrors, dom nextErrors = {}))"

text \<open>
  What \<open>handleSubmit\<close> stores for one field, from the field's value in the form (the
  body of the second \<open>forEach\<close>).
\<close>

definition cleanValue :: "DataEntryField \<Rightarrow> jsval \<Rightarrow> error + jsval" where
  "cleanValue field v =
     (if type_f field = Number then
        (if v = JStr '''' \<or> v = JUndefined \<or> v = JNull then Inr JNull
         else (case toNumber v of Inl e \<Rightarrow> Inl e | Inr n \<Rightarrow> Inr (JNum n)))
      else if type_f field = Checkbox then Inr (JBool (toBoolean v))
      else Inr (nullish v (JStr '''')))"

text \<open>
  The claim's words for a failing field: it is required, and its value in the form is
  falsy when the field is a checkbox, and \<open>null\<close>, \<open>undefined\<close> or the empty string
  otherwise.
\<close>

definition spec_fails :: "DataEntryField \<Rightarrow> EntryValues \<Rightarrow> bool" where
  "spec_fails field formValues \<longleftrightarrow>
     required field \<and>
     (if type_f field = Checkbox then \<not> toBoolean (getProp formValues (key field))
      else getProp formValues (key field) \<in> {JNull, JUndefined, JStr ''''})"

definition spec_message :: "DataEntryField \<Rightarrow> string" where
  "spec_message field =
     (if type_f field = Checkbox then ''This checkbox must be selected.''
      else ''This field is required.'')"

section \<open>The field designer (\<open>FieldDesigner.tsx\<close>)\<close>

subsection \<open>Key derivation\<close>

text \<open>The decimal digits of a counter, as the template literal \<open>`${counter}`\<close> writes it.\<close>

definition digitChar :: "nat \<Rightarrow> char" where
  "digitChar d = char_of (48 + d)"

fun numberToDigits :: "nat \<Rightarrow> string" where
  "numberToDigits n =
     (if n < 10 then [digitChar n]
      else numberToDigits (n div 10) @ [digitChar (n mod 10)])"

declare numberToDigits.simps [simp del]

definition candidateKey :: "string \<Rightarrow> nat \<Rightarrow> string" where
  "candidateKey baseKey counter = baseKey @ ''-'' @ numberToDigits counter"

lemma digitChar_inj:
  assumes "a < 10" and "b < 10" and "digitChar a = digitChar b"
  shows "a = b"
proof -
  have "(of_char (digitChar a) :: nat) = of_char (digitChar b)"
    using assms(3) by simp
  then have "(48 + a) mod 256 = (48 + b) mod 256"
    by (simp add: digitChar_def)
  with assms(1,2) show ?thesis by simp
qed

lemma numberToDigits_nonempty: "numberToDigits n \<noteq> []" "[] \<noteq> numberToDigits n"
  by (subst numberToDigits.simps, simp)+

lemma numberToDigits_last: "last (numberToDigits n) = digitChar (n mod 10)"
  by (subst numberToDigits.simps) simp

lemma numberToDigits_butlast:
  "butlast (numberToDigits n) = (if n < 10 then [] else numberToDigits (n div 10))"
  by (subst numberToDigits.simps) simp

lemma numberToDigits_inj: "numberToDigits n = numberToDigits m \<Longrightarrow> n = m"
proof (induction n arbitrary: m rule: numberToDigits.induct)
  case (1 n)
  from "1.prems" have "digitChar (n mod 10) = digitChar (m mod 10)"
    using numberToDigits_last by metis
  then have units: "n mod 10 = m mod 10"
    by (intro digitChar_inj) simp_all
  from "1.prems" have front:
    "(if n < 10 then [] else numberToDigits (n div 10)) =
     (if m < 10 then [] else numberToDigits (m div 10))"
    using numberToDigits_butlast by metis
  show ?case
  proof (cases "n < 10")
    case True
    with front have "m < 10"
      by (cases "m < 10") (simp_all add: numberToDigits_nonempty)
    with True units show ?thesis by simp
  next
    case False
    with front have m: "\<not> m < 10"
      by (cases "m < 10") (simp_all add: numberToDigits_nonempty)
    with False front have "numberToDigits (n div 10) = numberToDigits (m div 10)"
      by simp
    with False have "n div 10 = m div 10"
      using "1.IH" by blast
    with units show ?thesis
      by (metis div_mult_mod_eq)
  qed
qed

lemma candidateKey_inj: "candidateKey baseKey n = candidateKey baseKey m \<Longrightarrow> n = m"
  by (simp add: candidateKey_def numberToDigits_inj)

text \<open>
  The \<open>while\<close> loop of \<open>ensureUniqueKey\<close>.  The candidate is always
  \<open>`${baseKey}-${counter}`\<close>, so the loop state is the counter.
\<close>

function ensureUniqueKey_loop :: "string \<Rightarrow> string list \<Rightarrow> nat \<Rightarrow> string" where
  "ensureUniqueKey_loop baseKey existingKeys counter =
     (if candidateKey baseKey counter \<in> set existingKeys
      then ensureUniqueKey_loop baseKey existingKeys (counter + 1)
      else candidateKey baseKey counter)"
  by pat_completeness auto

termination
proof (relation "measure (\<lambda>(baseKey, existingKeys, counter).
          card {k \<in> set existingKeys. \<exists>n\<ge>counter. k = candidateKey baseKey n})")
  show "wf (measure (\<lambda>(baseKey, existingKeys, counter).
          card {k \<in> set existingKeys. \<exists>n\<ge>counter. k = candidateKey baseKey n}))"
    by simp
next
  fix baseKey :: string and existingKeys :: "string list" and counter :: nat
  assume taken: "candidateKey baseKey counter \<in> set existingKeys"
  let ?later = "{k \<in> set existingKeys. \<exists>n\<ge>counter + 1. k = candidateKey baseKey n}"
  let ?now = "{k \<in> set existingKeys. \<exists>n\<ge>counter. k = candidateKey baseKey n}"
  have "candidateKey baseKey counter \<notin> ?later"
    using candidateKey_inj by fastforce
  moreover have "candidateKey baseKey counter \<in> ?now"
    using taken by auto
  moreover have "?later \<subseteq> ?now"
    by (fastforce dest: Suc_leD)
  ultimately have "?later \<subset> ?now"
    by blast
  moreover have "finite ?now"
    by simp
  ultimately have "card ?later < card ?now"
    by (rule psubset_card_mono [rotated])
  then show "((baseKey, existingKeys, counter + 1), (baseKey, existingKeys, counter))
      \<in> measure (\<lambda>(baseKey, existingKeys, counter).
          card {k \<in> set existingKeys. \<exists>n\<ge>counter. k = candidateKey baseKey n})"
    by simp
qed

declare ensureUniqueKey_loop.simps [simp del]

definition ensureUniqueKey :: "string \<Rightarrow> string list \<Rightarrow> string" where
  "ensureUniqueKey baseKey existingKeys =
     (if baseKey \<notin> set existingKeys then baseKey
      else ensureUniqueKey_loop baseKey existingKeys 1)"

subsection \<open>Adding a field\<close>

record DraftField =
  draft_label :: string
  draft_type :: FieldType
  draft_required :: bool
  draft_placeholder :: string
  draft_helpText :: string
  draft_options :: string

text \<open>\<open>s.split(sep)\<close> with a one-character separator: the empty string gives \<open>[""]\<close>.\<close>

fun split_str :: "char \<Rightarrow> string \<Rightarrow> string list" where
  "split_str sep [] = [[]]"
| "split_str sep (c # cs) =
     (if c = sep then [] # split_str sep cs
      else (case split_str sep cs of
              [] \<Rightarrow> [[c]]
            | w # ws \<Rightarrow> (c # w) # ws))"

text \<open>\<open>text.split(",").map((item) => item.trim()).filter(Boolean)\<close>\<close>

definition parseOptions :: "string \<Rightarrow> string list" where
  "parseOptions text = filter (\<lambda>item. item \<noteq> []) (map trim (split_str CHR '','' text))"

text \<open>\<open>s.trim() || undefined\<close>\<close>

definition trimOrUndefined :: "string \<Rightarrow> string option" where
  "trimOrUndefined s = (if trim s \<noteq> [] then Some (trim s) else None)"

definition canSubmit :: "DraftField \<Rightarrow> bool" where
  "canSubmit draft \<longleftrightarrow> length (trim (draft_label draft)) > 0"

text \<open>
  \<open>createSlug\<close> and \<open>createId\<close> live in \<open>@/lib\<close>, outside the sources at hand: the
  slug function and the fresh id are parameters.  The result is the field handed to
  \<open>onAdd\<close>, or \<open>None\<close> when the handler returns early.
\<close>

definition FieldDesigner_handleAddField ::
  "(string \<Rightarrow> string) \<Rightarrow> string \<Rightarrow> DataEntryField list \<Rightarrow> DraftField \<Rightarrow> DataEntryField option"
  where
  "FieldDesigner_handleAddField createSlug newId fields_p draft =
     (if \<not> canSubmit draft then None
      else
        let existingKeys = map key fields_p;
            baseKey = (if createSlug (draft_label draft) \<noteq> []
                       then createSlug (draft_label draft)
                       else ''field-'' @ numberToDigits (length fields_p + 1));
            k = ensureUniqueKey baseKey existingKeys;
            opts = (if draft_type draft = Select
                    then Some (parseOptions (draft_options draft))
                    else None)
        in Some \<lparr> id_f = newId,
                  label = trim (draft_label draft),
                  key = k,
                  type_f = draft_type draft,
                  required = draft_required draft,
                  placeholder = trimOrUndefined (draft_placeholder draft),
                  helpText = trimOrUndefined (draft_helpText draft),
                  options = opts \<rparr>)"

text \<open>One click on "Add field": the designer's handler, then the page's \<open>onAdd\<close>.\<close>

definition addThroughDesigner ::
  "(string \<Rightarrow> string) \<Rightarrow> AppState \<Rightarrow> string \<times> DraftField \<Rightarrow> AppState" where
  "addThroughDesigner createSlug st request =
     (case FieldDesigner_handleAddField createSlug (fst request) (fields_s st) (snd request) of
        None \<Rightarrow> st
      | Some field \<Rightarrow> handleAddField field st)"

subsection \<open>Editing a field\<close>

record FieldEditor =
  localLabel :: string
  localPlaceholder :: string
  localHelpText :: string
  localRequired :: bool
  localOptions :: string

text \<open>The patch that \<open>FieldEditor.handleSave\<close> hands to \<open>onUpdate\<close>.\<close>

definition handleSave :: "DataEntryField \<Rightarrow> FieldEditor \<Rightarrow> FieldPatch" where
  "handleSave field editor =
     \<lparr> p_id = None,
       p_label = Some (if trim (localLabel editor) \<noteq> [] then trim (localLabel editor)
                       else label field),
       p_key = None,
       p_type = None,
       p_required = Some (localRequired editor),
       p_placeholder = Some (trimOrUndefined (localPlaceholder editor)),
       p_helpText = Some (trimOrUndefined (localHelpText editor)),
       p_options = Some (if type_f field = Select
                         then Some (parseOptions (localOptions editor))
                         else options field) \<rparr>"

text \<open>One click on "Save changes" in the editor of \<open>field\<close>.\<close>

definition editThroughDesigner :: "DataEntryField \<Rightarrow> FieldEditor \<Rightarrow> AppState \<Rightarrow> AppState" where
  "editThroughDesigner field editor st =
     handleUpdateField (id_f field) (handleSave field editor) st"

text \<open>
  What the designer does keep: a select field has an options list, possibly empty, and no
  option in it is the empty string.
\<close>

definition selectOptionsDefined :: "DataEntryField list \<Rightarrow> bool" where
  "selectOptionsDefined fs =
     list_all
       (\<lambda>f. type_f f = Select \<longrightarrow>
              (case options f of None \<Rightarrow> False | Some opts \<Rightarrow> [] \<notin> set opts))
       fs"

section \<open>The entries table (\<open>EntriesTable\<close>)\<close>

text \<open>\<open>a < b\<close> on strings compares code units, position by position.\<close>

fun stringLess :: "string \<Rightarrow> string \<Rightarrow> bool" where
  "stringLess [] [] = False"
| "stringLess [] (y # ys) = True"
| "stringLess (x # xs) [] = False"
| "stringLess (x # xs) (y # ys) =
     ((of_char x :: nat) < of_char y \<or> (x = y \<and> stringLess xs ys))"

text \<open>The comparator handed to \<open>sort\<close>: \<open>(a, b) => (a.updatedAt < b.updatedAt ? 1 : -1)\<close>.\<close>

definition compareUpdatedAt :: "RowEntry \<Rightarrow> RowEntry \<Rightarrow> int" where
  "compareUpdatedAt a b = (if stringLess (updatedAt a) (updatedAt b) then 1 else - 1)"

definition lowerChar :: "char \<Rightarrow> char" where
  "lowerChar c =
     (if 65 \<le> (of_char c :: nat) \<and> (of_char c :: nat) \<le> 90
      then char_of ((of_char c :: nat) + 32) else c)"

definition toLowerCase :: "string \<Rightarrow> string" where
  "toLowerCase s = map lowerChar s"

text \<open>\<open>s.includes(sub)\<close>: \<open>sub\<close> starts at some position of \<open>s\<close>.\<close>

fun includes_str :: "string \<Rightarrow> string \<Rightarrow> bool" where
  "includes_str [] sub = (sub = [])"
| "includes_str (c # cs) sub = (take (length sub) (c # cs) = sub \<or> includes_str cs sub)"

text \<open>
  \<open>xs.some(p)\<close> and \<open>xs.filter(p)\<close> with a callback that may throw: the elements are
  visited in order, \<open>some\<close> stops at the first that gives true, and a throw ends either.
\<close>

fun some_js :: "('a \<Rightarrow> error + bool) \<Rightarrow> 'a list \<Rightarrow> error + bool" where
  "some_js p [] = Inr False"
| "some_js p (x # xs) =
     (case p x of
        Inl e \<Rightarrow> Inl e
      | Inr b \<Rightarrow> if b then Inr True else some_js p xs)"

fun filter_js :: "('a \<Rightarrow> error + bool) \<Rightarrow> 'a list \<Rightarrow> error + 'a list" where
  "filter_js p [] = Inr []"
| "filter_js p (x # xs) =
     (case p x of
        Inl e \<Rightarrow> Inl e
      | Inr b \<Rightarrow>
          (case filter_js p xs of
             Inl e \<Rightarrow> Inl e
           | Inr ys \<Rightarrow> Inr (if b then x # ys else ys)))"

text \<open>The callback given to \<open>fields.some\<close>, for one record.\<close>

definition fieldMatches :: "(jsnum \<Rightarrow> string) \<Rightarrow> string \<Rightarrow> RowEntry \<Rightarrow> DataEntryField \<Rightarrow> error + bool"
  where
  "fieldMatches numberToString lookup entry field =
     (let v = getProp (values_e entry) (key field)
      in if v \<noteq> JUndefined \<and> v \<noteq> JNull
         then (case toString numberToString v of
                 Inl e \<Rightarrow> Inl e
               | Inr s \<Rightarrow> Inr (includes_str (toLowerCase s) lookup))
         else Inr False)"

text \<open>The predicate given to \<open>clone.filter\<close>.\<close>

definition entryMatches ::
  "(jsnum \<Rightarrow> string) \<Rightarrow> DataEntryField list \<Rightarrow> string \<Rightarrow> RowEntry \<Rightarrow> error + bool" where
  "entryMatches numberToString fields_p lookup entry =
     (let baseMatch =
            includes_str (toLowerCase (id_e entry)) lookup \<or>
            includes_str (toLowerCase (createdAt entry)) lookup \<or>
            includes_str (toLowerCase (updatedAt entry)) lookup
      in if baseMatch then Inr True
         else some_js (fieldMatches numberToString lookup entry) fields_p)"

text \<open>
  \<open>filteredEntries\<close>.  \<open>Array.prototype.sort\<close> belongs to the engine: \<open>sort_js\<close> is
  the engine's function from a comparator and an array to the sorted copy.
\<close>

definition filteredEntries ::
  "((RowEntry \<Rightarrow> RowEntry \<Rightarrow> int) \<Rightarrow> RowEntry list \<Rightarrow> RowEntry list) \<Rightarrow>
   (jsnum \<Rightarrow> string) \<Rightarrow> DataEntryField list \<Rightarrow> RowEntry list \<Rightarrow> string \<Rightarrow>
   error + RowEntry list"
  where
  "filteredEntries sort_js numberToString fields_p entries_p filterText =
     (let clone = sort_js compareUpdatedAt entries_p
      in if trim filterText = [] then Inr clone
         else
           let lookup = toLowerCase (trim filterText)
           in filter_js (entryMatches numberToString fields_p lookup) clone)"

section \<open>Example data\<close>

text \<open>
  A state for the concrete instances below: the default fields, one record holding a
  company and an e-mail address, and that record chosen for editing.
\<close>

definition exampleEntry :: RowEntry where
  "exampleEntry =
     \<lparr> id_e = ''entry-1'',
       createdAt = ''2024-01-01T10:00:00.000Z'',
       updatedAt = ''2024-01-01T10:00:00.000Z'',
       values_e = [''company'' \<mapsto> JStr ''Acme'', ''email'' \<mapsto> JStr ''a@b.com''] \<rparr>"

definition exampleState :: AppState where
  "exampleState =
     \<lparr> fields_s = DEFAULT_FIELDS, entries = [exampleEntry], editingEntryId = Some ''entry-1'' \<rparr>"

text \<open>The patch \<open>{ key: k }\<close>.\<close>

definition keyPatch :: "string \<Rightarrow> FieldPatch" where
  "keyPatch k =
     \<lparr> p_id = None, p_label = None, p_key = Some k, p_type = None, p_required = None,
       p_placeholder = None, p_helpText = None, p_options = None \<rparr>"

text \<open>The patch \<open>{ label: l }\<close>.\<close>

definition labelPatch :: "string \<Rightarrow> FieldPatch" where
  "labelPatch l =
     \<lparr> p_id = None, p_label = Some l, p_key = None, p_type = None, p_required = None,
       p_placeholder = None, p_helpText = None, p_options = None \<rparr>"

text \<open>A numeric field and a required checkbox field.\<close>

definition numberField :: DataEntryField where
  "numberField =
     \<lparr> id_f = ''field-amount'', label = ''Amount'', key = ''amount'', type_f = Number,
       required = False, placeholder = None, helpText = None, options = None \<rparr>"

definition checkboxField :: DataEntryField where
  "checkboxField =
     \<lparr> id_f = ''field-consent'', label = ''Consent'', key = ''consent'', type_f = Checkbox,
       required = True, placeholder = None, helpText = None, options = None \<rparr>"

text \<open>Two records stamped at the same instant.\<close>

definition tiedFirst :: RowEntry where
  "tiedFirst = exampleEntry\<lparr>id_e := ''entry-a''\<rparr>"

definition tiedSecond :: RowEntry where
  "tiedSecond = exampleEntry\<lparr>id_e := ''entry-b''\<rparr>"

text \<open>A slug function for the concrete instance: two labels it knows, nothing else.\<close>

definition exampleSlug :: "string \<Rightarrow> string" where
  "exampleSlug l =
     (if l = ''Status'' then ''status'' else if l = ''Notes'' then ''notes'' else [])"

text \<open>Drafts and an editor state for the designer.\<close>

definition textDraft :: "string \<Rightarrow> DraftField" where
  "textDraft l =
     \<lparr> draft_label = l, draft_type = Text, draft_required = False, draft_placeholder = [],
       draft_helpText = [], draft_options = [] \<rparr>"

definition selectDraft :: "string \<Rightarrow> string \<Rightarrow> DraftField" where
  "selectDraft l opts =
     \<lparr> draft_label = l, draft_type = Select, draft_required = True, draft_placeholder = [],
       draft_helpText = [], draft_options = opts \<rparr>"

definition exampleEditor :: "string \<Rightarrow> FieldEditor" where
  "exampleEditor opts =
     \<lparr> localLabel = ''Status'', localPlaceholder = [], localHelpText = [],
       localRequired = True, localOptions = opts \<rparr>"

text \<open>
  A text field whose key is a name that every object inherits, and a state to rename
  keys in: its one record has neither that key nor the checkbox's.
\<close>

definition constructorField :: DataEntryField where
  "constructorField =
     \<lparr> id_f = ''field-constructor'', label = ''Constructor'', key = ''constructor'',
       type_f = Text, required = False, placeholder = None, helpText = None, options = None \<rparr>"

definition renameState :: AppState where
  "renameState =
     \<lparr> fields_s = [checkboxField, constructorField], entries = [exampleEntry],
       editingEntryId = None \<rparr>"


section \<open>Deleting a field\<close>

text \<open>
  C6.  When a field with the given id is present, \<open>handleDeleteField\<close> leaves no field
  with that id in the list and keeps all the others in their order, and in every record
  the deleted field's key is gone while every other key keeps its value and the record's
  id and time stamps stay; when there is no field of that id, the state comes back
  unchanged.
\<close>

theorem handleDeleteField_cascade:
  "(case find (\<lambda>item. id_f item = fieldId) (fields_s st) of
      None \<Rightarrow> handleDeleteField fieldId st = st
    | Some fieldToDelete \<Rightarrow>
        fields_s (handleDeleteField fieldId st)
          = filter (\<lambda>item. id_f item \<noteq> fieldId) (fields_s st) \<and>
        fieldId \<notin> id_f ` set (fields_s (handleDeleteField fieldId st)) \<and>
        length (entries (handleDeleteField fieldId st)) = length (entries st) \<and>
        (\<forall>i < length (entries st).
           let before = entries st ! i; after = entries (handleDeleteField fieldId st) ! i
           in key fieldToDelete \<notin> dom (values_e after) \<and>
              (\<forall>k. k \<noteq> key fieldToDelete \<longrightarrow> values_e after k = values_e before k) \<and>
              id_e after = id_e before \<and> createdAt after = createdAt before \<and>
              updatedAt after = updatedAt before) \<and>
        editingEntryId (handleDeleteField fieldId st) = editingEntryId st)"
  by (auto simp: handleDeleteField_def removeKey_def Let_def split: option.splits)

theorem handleDeleteField_cascade_witness:
  "find (\<lambda>item. id_f item = ''field-email'') (fields_s exampleState) = Some (DEFAULT_FIELDS ! 2) \<and>
   map id_f (fields_s (handleDeleteField ''field-email'' exampleState))
     = [''field-company'', ''field-contact'', ''field-status'', ''field-notes''] \<and>
   ''email'' \<notin> dom (values_e (entries (handleDeleteField ''field-email'' exampleState) ! 0)) \<and>
   values_e (entries (handleDeleteField ''field-email'' exampleState) ! 0) ''company''
     = Some (JStr ''Acme'') \<and>
   find (\<lambda>item. id_f item = ''field-phone'') (fields_s exampleState) = None \<and>
   handleDeleteField ''field-phone'' exampleState = exampleState"
  using handleDeleteField_cascade [of "''field-email''" exampleState]
    handleDeleteField_cascade [of "''field-phone''" exampleState]
  by (simp add: exampleState_def exampleEntry_def DEFAULT_FIELDS_def Let_def)

section \<open>Updating a field\<close>

text \<open>
  C10.  When the patch carries no key, or the key the target field already has,
  \<open>handleUpdateField\<close> leaves the record list (and the edit selection) as it was, and
  in the field list only the fields with the given id change: each of them becomes the
  field with the patch spread over it, every other field stays.
\<close>

theorem handleUpdateField_same_key:
  assumes "p_key patch = None \<or>
           (\<exists>target. find (\<lambda>field. id_f field = fieldId) (fields_s st) = Some target \<and>
                     p_key patch = Some (key target))"
  shows "entries (handleUpdateField fieldId patch st) = entries st \<and>
         editingEntryId (handleUpdateField fieldId patch st) = editingEntryId st \<and>
         fields_s (handleUpdateField fieldId patch st)
           = map (\<lambda>field. if id_f field = fieldId then applyPatch field patch else field)
               (fields_s st) \<and>
         (\<forall>i < length (fields_s st).
            id_f (fields_s st ! i) \<noteq> fieldId \<longrightarrow>
            fields_s (handleUpdateField fieldId patch st) ! i = fields_s st ! i)"
proof (cases "find (\<lambda>field. id_f field = fieldId) (fields_s st)")
  case None
  then have "\<forall>field \<in> set (fields_s st). id_f field \<noteq> fieldId"
    by (simp add: find_None_iff)
  then have "map (\<lambda>field. if id_f field = fieldId then applyPatch field patch else field)
               (fields_s st) = fields_s st"
    by (simp add: map_idI)
  with None show ?thesis
    by (simp add: handleUpdateField_def)
next
  case (Some target)
  with assms have "p_key patch = None \<or> p_key patch = Some (key target)"
    by auto
  with Some show ?thesis
    by (auto simp: handleUpdateField_def)
qed

theorem handleUpdateField_same_key_witness:
  "p_key (labelPatch ''E-mail'') = None \<and>
   entries (handleUpdateField ''field-email'' (labelPatch ''E-mail'') exampleState)
     = entries exampleState \<and>
   map label (fields_s (handleUpdateField ''field-email'' (labelPatch ''E-mail'') exampleState))
     = [''Company'', ''Primary contact'', ''E-mail'', ''Status'', ''Notes''] \<and>
   find (\<lambda>field. id_f field = ''field-email'') (fields_s exampleState) = Some (DEFAULT_FIELDS ! 2) \<and>
   p_key (keyPatch ''email'') = Some (key (DEFAULT_FIELDS ! 2)) \<and>
   entries (handleUpdateField ''field-email'' (keyPatch ''email'') exampleState)
     = entries exampleState"
  using handleUpdateField_same_key [of "labelPatch ''E-mail''" "''field-email''" exampleState]
    handleUpdateField_same_key [of "keyPatch ''email''" "''field-email''" exampleState]
  by (simp add: exampleState_def DEFAULT_FIELDS_def labelPatch_def keyPatch_def applyPatch_def)

lemma objectPrototype_examples:
  "objectPrototype ''email'' = None"
  "objectPrototype ''consent'' = None"
  "objectPrototype ''constructor'' = Some (JFun ''function Object() { [native code] }'')"
  by (simp_all add: objectPrototype_def nativeFunction_def)

text \<open>
  C1, as the code has it.  When the patch carries a key \<open>b\<close> that is not the empty
  string and differs from the target field's key \<open>a\<close>, and \<open>a\<close> is not a name that
  every object inherits, the one call returns the patched field list together with the
  migrated records: in every record \<open>a\<close> is no longer a key, \<open>b\<close> holds the value
  that was under \<open>a\<close>, or the empty string, whatever the field's type, when there was
  none (missing, \<open>undefined\<close> or \<open>null\<close>), every other key keeps its value, and the
  record's id and time stamps stay.
\<close>

theorem handleUpdateField_key_migration:
  assumes "find (\<lambda>field. id_f field = fieldId) (fields_s st) = Some target"
    and "p_key patch = Some b" and "b \<noteq> []" and "b \<noteq> key target"
    and "objectPrototype (key target) = None"
  shows "fields_s (handleUpdateField fieldId patch st)
           = map (\<lambda>field. if id_f field = fieldId then applyPatch field patch else field)
               (fields_s st) \<and>
         key (applyPatch target patch) = b \<and>
         length (entries (handleUpdateField fieldId patch st)) = length (entries st) \<and>
         (\<forall>i < length (entries st).
            let before = entries st ! i;
                after = entries (handleUpdateField fieldId patch st) ! i
            in key target \<notin> dom (values_e after) \<and>
               values_e after b
                 = Some (case values_e before (key target) of
                           None \<Rightarrow> JStr ''''
                         | Some v \<Rightarrow> if v = JUndefined \<or> v = JNull then JStr '''' else v) \<and>
               (\<forall>k. k \<noteq> key target \<and> k \<noteq> b \<longrightarrow> values_e after k = values_e before k) \<and>
               id_e after = id_e before \<and> createdAt after = createdAt before \<and>
               updatedAt after = updatedAt before)"
  using assms
  by (auto simp: handleUpdateField_def migrateKey_def applyPatch_def nullish_def getProp_def
      Let_def split: option.splits)

theorem handleUpdateField_key_migration_witness:
  "find (\<lambda>field. id_f field = ''field-email'') (fields_s exampleState) = Some (DEFAULT_FIELDS ! 2) \<and>
   p_key (keyPatch ''contact-email'') = Some ''contact-email'' \<and>
   ''contact-email'' \<noteq> [] \<and> ''contact-email'' \<noteq> key (DEFAULT_FIELDS ! 2) \<and>
   objectPrototype (key (DEFAULT_FIELDS ! 2)) = None \<and>
   map key (fields_s (handleUpdateField ''field-email'' (keyPatch ''contact-email'') exampleState))
     = [''company'', ''primary-contact'', ''contact-email'', ''status'', ''notes''] \<and>
   values_e (entries (handleUpdateField ''field-email'' (keyPatch ''contact-email'') exampleState) ! 0)
       ''contact-email'' = Some (JStr ''a@b.com'') \<and>
   ''email'' \<notin> dom (values_e
       (entries (handleUpdateField ''field-email'' (keyPatch ''contact-email'') exampleState) ! 0))"
  using handleUpdateField_key_migration
    [of "''field-email''" exampleState "DEFAULT_FIELDS ! 2" "keyPatch ''contact-email''"
      "''contact-email''"]
  by (simp add: exampleState_def exampleEntry_def DEFAULT_FIELDS_def keyPatch_def
      applyPatch_def objectPrototype_examples Let_def)

text \<open>
  C1 as stated fails in three ways.  The value inserted when a record has none under the
  old key is the empty string for every field type, also for a checkbox, whose default
  is \<open>false\<close>.  A patch whose key is the empty string fails the guard
  \<open>patch.key && ...\<close>: the field's key changes from \<open>email\<close> to the empty string while
  the record keeps its \<open>email\<close> key and gets no new one.  And when the old key is a name
  that every object inherits, the destructuring reads the inherited function, which is
  then stored under the new key of a record that had no value under the old one.
\<close>

theorem handleUpdateField_key_migration_counterexample:
  "getDefaultValue checkboxField = JBool False \<and>
   values_e (entries renameState ! 0) ''consent'' = None \<and>
   values_e (entries (handleUpdateField ''field-consent'' (keyPatch ''agreed'') renameState) ! 0)
       ''agreed'' = Some (JStr '''') \<and>
   p_key (keyPatch '''') = Some '''' \<and>
   map key (fields_s exampleState)
     = [''company'', ''primary-contact'', ''email'', ''status'', ''notes''] \<and>
   map key (fields_s (handleUpdateField ''field-email'' (keyPatch '''') exampleState))
     = [''company'', ''primary-contact'', '''', ''status'', ''notes''] \<and>
   values_e (entries (handleUpdateField ''field-email'' (keyPatch '''') exampleState) ! 0) ''email''
     = Some (JStr ''a@b.com'') \<and>
   values_e (entries (handleUpdateField ''field-email'' (keyPatch '''') exampleState) ! 0) ''''
     = None \<and>
   values_e (entries renameState ! 0) ''constructor'' = None \<and>
   values_e (entries (handleUpdateField ''field-constructor'' (keyPatch ''builder'') renameState) ! 0)
       ''builder'' = Some (JFun ''function Object() { [native code] }'')"
  by (simp add: handleUpdateField_def migrateKey_def getProp_def nullish_def
      objectPrototype_examples getDefaultValue_def renameState_def checkboxField_def
      constructorField_def exampleState_def exampleEntry_def DEFAULT_FIELDS_def
      keyPatch_def applyPatch_def Let_def)

section \<open>Submitting while editing\<close>









section \<open>Validation\<close>

lemma validateField_eq:
  "validateField formValues nextErrors field =
     (if spec_fails field formValues then nextErrors(key field \<mapsto> spec_message field)
      else nextErrors)"
  by (simp add: validateField_def spec_fails_def spec_message_def Let_def)

lemma validate_fold_dom:
  "dom (foldl (validateField formValues) acc fs)
     = dom acc \<union> key ` {f \<in> set fs. spec_fails f formValues}"
  by (induction fs arbitrary: acc) (auto simp: validateField_eq)

lemma validate_fold_Some:
  "foldl (validateField formValues) acc fs k = Some m \<Longrightarrow>
     acc k = Some m \<or>
     (\<exists>f \<in> set fs. key f = k \<and> spec_fails f formValues \<and> m = spec_message f)"
proof (induction fs arbitrary: acc)
  case Nil
  then show ?case by simp
next
  case (Cons f fs)
  from Cons.prems have "foldl (validateField formValues) (validateField formValues acc f) fs k = Some m"
    by simp
  from Cons.IH [OF this] show ?case
    by (auto simp: validateField_eq split: if_splits)
qed

lemma validate_fold_distinct:
  assumes "distinct (map key fs)" and "f \<in> set fs"
  shows "foldl (validateField formValues) Map.empty fs (key f)
           = (if spec_fails f formValues then Some (spec_message f) else None)"
  using assms
proof (induction fs rule: rev_induct)
  case Nil
  then show ?case by simp
next
  case (snoc g fs)
  let ?errs = "foldl (validateField formValues) Map.empty fs"
  have step: "foldl (validateField formValues) Map.empty (fs @ [g])
      = (if spec_fails g formValues then ?errs(key g \<mapsto> spec_message g) else ?errs)"
    using validateField_eq [of formValues ?errs g] by simp
  show ?case
  proof (cases "f = g")
    case True
    from snoc.prems(1) have "key g \<notin> key ` set fs"
      by auto
    then have "key g \<notin> dom ?errs"
      by (auto simp: validate_fold_dom)
    then have "?errs (key g) = None"
      by blast
    with True show ?thesis
      unfolding step by simp
  next
    case False
    with snoc.prems have inside: "f \<in> set fs"
      by auto
    from snoc.prems(1) have "key g \<notin> key ` set fs"
      by auto
    with inside have other: "key f \<noteq> key g"
      by (metis imageI)
    from snoc.prems(1) have "distinct (map key fs)"
      by simp
    then have "?errs (key f)
        = (if spec_fails f formValues then Some (spec_message f) else None)"
      using inside by (rule snoc.IH)
    with other show ?thesis
      unfolding step by simp
  qed
qed

text \<open>
  C3.  The keys of the error object are exactly the keys of the failing fields, so a
  field that is not required adds none and every failing field has its entry; each
  entry is the message of a failing field with that key; when the fields' keys are
  distinct, each field's key holds that field's own message exactly when the field
  fails; and \<open>validate\<close> returns true exactly when no field fails.
\<close>

theorem validate_reports_every_failure:
  "dom (fst (validate fs formValues)) = key ` {f \<in> set fs. spec_fails f formValues} \<and>
   (\<forall>k m. fst (validate fs formValues) k = Some m \<longrightarrow>
      (\<exists>f \<in> set fs. key f = k \<and> spec_fails f formValues \<and> m = spec_message f)) \<and>
   (distinct (map key fs) \<longrightarrow>
      (\<forall>f \<in> set fs.
         fst (validate fs formValues) (key f)
           = (if spec_fails f formValues then Some (spec_message f) else None))) \<and>
   (snd (validate fs formValues) \<longleftrightarrow> (\<forall>f \<in> set fs. \<not> spec_fails f formValues))"
proof -
  have keys: "dom (fst (validate fs formValues)) = key ` {f \<in> set fs. spec_fails f formValues}"
    by (simp add: validate_def validate_fold_dom Let_def)
  have "snd (validate fs formValues) \<longleftrightarrow> dom (fst (validate fs formValues)) = {}"
    by (simp add: validate_def Let_def)
  with keys have verdict:
    "snd (validate fs formValues) \<longleftrightarrow> (\<forall>f \<in> set fs. \<not> spec_fails f formValues)"
    by auto
  note keys
  moreover have "\<forall>k m. fst (validate fs formValues) k = Some m \<longrightarrow>
      (\<exists>f \<in> set fs. key f = k \<and> spec_fails f formValues \<and> m = spec_message f)"
    using validate_fold_Some [of formValues Map.empty fs]
    by (simp add: validate_def Let_def)
  moreover have "distinct (map key fs) \<longrightarrow>
      (\<forall>f \<in> set fs.
         fst (validate fs formValues) (key f)
           = (if spec_fails f formValues then Some (spec_message f) else None))"
    using validate_fold_distinct [of fs _ formValues]
    by (simp add: validate_def Let_def)
  moreover note verdict
  ultimately show ?thesis
    by blast
qed

theorem validate_reports_every_failure_witness:
  "distinct (map key (DEFAULT_FIELDS @ [checkboxField])) \<and>
   fst (validate (DEFAULT_FIELDS @ [checkboxField])
          [''company'' \<mapsto> JStr ''Acme'', ''email'' \<mapsto> JStr '''', ''consent'' \<mapsto> JBool False])
     = [''primary-contact'' \<mapsto> ''This field is required.'',
        ''email'' \<mapsto> ''This field is required.'',
        ''status'' \<mapsto> ''This field is required.'',
        ''consent'' \<mapsto> ''This checkbox must be selected.''] \<and>
   \<not> snd (validate (DEFAULT_FIELDS @ [checkboxField])
          [''company'' \<mapsto> JStr ''Acme'', ''email'' \<mapsto> JStr '''', ''consent'' \<mapsto> JBool False])"
  using validate_reports_every_failure
      [of "DEFAULT_FIELDS @ [checkboxField]"
        "[''company'' \<mapsto> JStr ''Acme'', ''email'' \<mapsto> JStr '''', ''consent'' \<mapsto> JBool False]"]
  by (simp add: validate_def validateField_def DEFAULT_FIELDS_def checkboxField_def
      getProp_def objectPrototype_def spec_fails_def spec_message_def Let_def)

section \<open>Normalizing a value\<close>

lemma isFinite_iff: "isFinite n \<longleftrightarrow> (\<exists>q. n = Finite q)"
  by (cases n) simp_all

text \<open>
  C2, as the code has it.  For a numeric field, \<open>normalizeValue\<close> gives a missing
  (\<open>undefined\<close>) or \<open>null\<close> raw value the field's default, the empty string, which
  \<open>handleSubmit\<close> then stores as \<open>null\<close>; every other raw value except the empty
  string is parsed with \<open>Number\<close>, a finite result is kept and a non-finite one (a
  failed parse too) becomes \<open>null\<close>; \<open>Number\<close> does not throw on a primitive value;
  and whatever the raw value, \<open>normalizeValue\<close> throws only on an object that
  \<open>Number\<close> throws on, and otherwise the result is the empty string, \<open>null\<close> or a
  finite number.
\<close>

theorem normalizeValue_number:
  assumes "type_f field = Number"
  shows "(v = JUndefined \<or> v = JNull \<longrightarrow>
            normalizeValue field v = Inr (JStr '''') \<and>
            (case normalizeValue field v of Inl e \<Rightarrow> Inl e | Inr y \<Rightarrow> cleanValue field y)
              = Inr JNull) \<and>
         (v \<noteq> JUndefined \<and> v \<noteq> JNull \<and> v \<noteq> JStr '''' \<longrightarrow>
            normalizeValue field v
              = (case toNumber v of
                   Inl e \<Rightarrow> Inl e
                 | Inr parsed \<Rightarrow> Inr (if isFinite parsed then JNum parsed else JNull))) \<and>
         (isPrimitive v \<longrightarrow> (\<exists>parsed. toNumber v = Inr parsed)) \<and>
         ((\<exists>s. v = JObj None s \<and> normalizeValue field v = Inl TypeError) \<or>
          normalizeValue field v = Inr (JStr '''') \<or> normalizeValue field v = Inr JNull \<or>
          (\<exists>q. normalizeValue field v = Inr (JNum (Finite q))))"
proof -
  have missing: "v = JUndefined \<or> v = JNull \<longrightarrow>
            normalizeValue field v = Inr (JStr '''') \<and>
            (case normalizeValue field v of Inl e \<Rightarrow> Inl e | Inr y \<Rightarrow> cleanValue field y)
              = Inr JNull"
    using assms by (auto simp: normalizeValue_def getDefaultValue_def cleanValue_def)
  have parsed: "v \<noteq> JUndefined \<and> v \<noteq> JNull \<and> v \<noteq> JStr '''' \<longrightarrow>
            normalizeValue field v
              = (case toNumber v of
                   Inl e \<Rightarrow> Inl e
                 | Inr parsed \<Rightarrow> Inr (if isFinite parsed then JNum parsed else JNull))"
    using assms by (simp add: normalizeValue_def)
  have primitive: "isPrimitive v \<longrightarrow> (\<exists>parsed. toNumber v = Inr parsed)"
    by (cases v) simp_all
  have range: "(\<exists>s. v = JObj None s \<and> normalizeValue field v = Inl TypeError) \<or>
          normalizeValue field v = Inr (JStr '''') \<or> normalizeValue field v = Inr JNull \<or>
          (\<exists>q. normalizeValue field v = Inr (JNum (Finite q)))"
    using assms
    by (cases v)
      (auto simp: normalizeValue_def getDefaultValue_def isFinite_iff split: option.splits)
  from missing parsed primitive range show ?thesis
    by blast
qed

theorem normalizeValue_number_witness:
  "type_f numberField = Number \<and>
   normalizeValue numberField JUndefined = Inr (JStr '''') \<and>
   cleanValue numberField (JStr '''') = Inr JNull \<and>
   normalizeValue numberField (JNum (Finite 7)) = Inr (JNum (Finite 7)) \<and>
   normalizeValue numberField (JBool True) = Inr (JNum (Finite 1)) \<and>
   normalizeValue numberField (JNum PosInfinity) = Inr JNull \<and>
   normalizeValue numberField (JStr ''abc'') = Inr JNull"
proof -
  have t: "type_f numberField = Number"
    by (simp add: numberField_def)
  have abc: "StringToNumber ''abc'' = NaN"
    by (simp add: StringToNumber_def trim_def isWhiteSpace_def parseUnsigned_def
        parseDecimal_def parseMantissa_def parseDigits_def digitOf_def isExponentMark_def
        optionToNumber_def Let_def)
  from normalizeValue_number [OF t, of JUndefined]
    normalizeValue_number [OF t, of "JNum (Finite 7)"]
    normalizeValue_number [OF t, of "JBool True"]
    normalizeValue_number [OF t, of "JNum PosInfinity"]
    normalizeValue_number [OF t, of "JStr ''abc''"]
  show ?thesis
    by (simp add: t abc cleanValue_def)
qed

text \<open>
  C2 as stated fails on a missing or \<open>null\<close> raw value: \<open>normalizeValue\<close> returns
  \<open>getDefaultValue(field)\<close>, the empty string, not \<open>null\<close>.
\<close>

theorem normalizeValue_number_missing_counterexample:
  "type_f numberField = Number \<and>
   normalizeValue numberField JUndefined = Inr (JStr '''') \<and>
   normalizeValue numberField JNull = Inr (JStr '''') \<and>
   JStr '''' \<noteq> JNull"
  by (simp add: normalizeValue_def getDefaultValue_def numberField_def)

text \<open>
  The empty string itself is not treated as empty: \<open>Number("")\<close> is 0, which is
  finite, so clearing a numeric input leaves 0 in the form.
\<close>

lemma normalizeValue_number_empty_string:
  "normalizeValue numberField (JStr '''') = Inr (JNum (Finite 0))"
  by (simp add: normalizeValue_def numberField_def StringToNumber_def trim_def)

lemma normalizeValue_throws_iff:
  "(\<exists>e. normalizeValue field x = Inl e) \<longleftrightarrow>
     (type_f field = Number \<and> (\<exists>s. x = JObj None s)) \<or>
     (type_f field \<noteq> Number \<and> type_f field \<noteq> Checkbox \<and> (\<exists>n. x = JObj n None))"
  by (cases x) (auto simp: normalizeValue_def split: option.splits)

lemma normalizeValue_defined: "normalizeValue field x \<noteq> Inr JUndefined"
  by (cases x)
    (auto simp: normalizeValue_def getDefaultValue_def split: option.splits FieldType.splits)

lemma normalizeValue_second_pass:
  assumes "normalizeValue field x = Inr y"
    and "type_f field \<noteq> Number \<or> (\<exists>n. y = JNum n)"
  shows "normalizeValue field y = Inr y"
proof (cases "type_f field = Number")
  case True
  with assms obtain n where n: "y = JNum n"
    by auto
  with True assms(1) have "isFinite n"
    by (cases x)
      (auto simp: normalizeValue_def getDefaultValue_def
        split: if_splits option.splits sum.splits)
  with True n show ?thesis
    by (simp add: normalizeValue_def)
next
  case False
  with assms(1) show ?thesis
    by (cases x)
      (auto simp: normalizeValue_def getDefaultValue_def
        split: FieldType.splits option.splits if_splits)
qed

text \<open>
  C4, as the code has it.  On a primitive raw value \<open>normalizeValue\<close> returns; it
  throws exactly on an object whose conversion throws (\<open>Number\<close> for a numeric field,
  \<open>String\<close> for a field that is neither numeric nor a checkbox); what it returns is
  never \<open>undefined\<close>; a second pass on what it returned changes nothing for a field
  that is not numeric, and for a numeric field whenever the first pass gave a number;
  and for a numeric field the second pass turns \<open>null\<close> into the empty string.
\<close>

theorem normalizeValue_idempotent:
  "(isPrimitive x \<longrightarrow> (\<exists>y. normalizeValue field x = Inr y)) \<and>
   ((\<exists>e. normalizeValue field x = Inl e) \<longleftrightarrow>
      (type_f field = Number \<and> (\<exists>s. x = JObj None s)) \<or>
      (type_f field \<noteq> Number \<and> type_f field \<noteq> Checkbox \<and> (\<exists>n. x = JObj n None))) \<and>
   normalizeValue field x \<noteq> Inr JUndefined \<and>
   (\<forall>y. normalizeValue field x = Inr y \<and> (type_f field \<noteq> Number \<or> (\<exists>n. y = JNum n)) \<longrightarrow>
      normalizeValue field y = Inr y) \<and>
   (type_f field = Number \<longrightarrow> normalizeValue field JNull = Inr (JStr ''''))"
proof -
  have "isPrimitive x \<longrightarrow> (\<exists>y. normalizeValue field x = Inr y)"
  proof
    assume "isPrimitive x"
    then have "\<not> (\<exists>e. normalizeValue field x = Inl e)"
      unfolding normalizeValue_throws_iff by auto
    then show "\<exists>y. normalizeValue field x = Inr y"
      by (cases "normalizeValue field x") auto
  qed
  moreover have "type_f field = Number \<longrightarrow> normalizeValue field JNull = Inr (JStr '''')"
    by (simp add: normalizeValue_def getDefaultValue_def)
  moreover note normalizeValue_throws_iff [of field x] normalizeValue_defined [of field x]
  moreover have "\<forall>y. normalizeValue field x = Inr y \<and>
      (type_f field \<noteq> Number \<or> (\<exists>n. y = JNum n)) \<longrightarrow> normalizeValue field y = Inr y"
    using normalizeValue_second_pass [of field x] by blast
  ultimately show ?thesis
    by blast
qed

theorem normalizeValue_idempotent_witness:
  "isPrimitive (JStr ''yes'') \<and>
   type_f checkboxField \<noteq> Number \<and>
   normalizeValue checkboxField (JStr ''yes'') = Inr (JBool True) \<and>
   normalizeValue checkboxField (JBool True) = Inr (JBool True) \<and>
   type_f numberField = Number \<and>
   normalizeValue numberField (JBool True) = Inr (JNum (Finite 1)) \<and>
   normalizeValue numberField (JNum (Finite 1)) = Inr (JNum (Finite 1)) \<and>
   normalizeValue numberField JNull = Inr (JStr '''')"
proof -
  have b: "normalizeValue numberField (JBool True) = Inr (JNum (Finite 1))"
    by (simp add: normalizeValue_def numberField_def)
  have d: "normalizeValue checkboxField (JStr ''yes'') = Inr (JBool True)"
    by (simp add: normalizeValue_def checkboxField_def)
  have t: "type_f checkboxField \<noteq> Number" "type_f numberField = Number"
    by (simp_all add: checkboxField_def numberField_def)
  from normalizeValue_idempotent [of "JStr ''yes''" checkboxField] d t(1)
  have "normalizeValue checkboxField (JBool True) = Inr (JBool True)"
    by blast
  moreover from normalizeValue_idempotent [of "JBool True" numberField] b
  have "normalizeValue numberField (JNum (Finite 1)) = Inr (JNum (Finite 1))"
    by blast
  moreover from normalizeValue_idempotent [of "JBool True" numberField] t(2)
  have "normalizeValue numberField JNull = Inr (JStr '''')"
    by blast
  ultimately show ?thesis
    using b d t by simp
qed

text \<open>
  C4 as stated fails in two ways.  For a numeric field a non-finite raw value becomes
  \<open>null\<close>, and \<open>null\<close> becomes the default, the empty string, so the second pass
  differs from the first.  And on an object with no callable \<open>toString\<close> or
  \<open>valueOf\<close>, \<open>normalizeValue\<close> throws, for a numeric field and for a text field.
\<close>

theorem normalizeValue_not_idempotent_counterexample:
  "normalizeValue numberField (JNum NaN) = Inr JNull \<and>
   normalizeValue numberField JNull = Inr (JStr '''') \<and>
   JStr '''' \<noteq> JNull \<and>
   type_f constructorField = Text \<and>
   normalizeValue constructorField (JObj None None) = Inl TypeError \<and>
   normalizeValue numberField (JObj None None) = Inl TypeError"
  by (simp add: normalizeValue_def getDefaultValue_def numberField_def constructorField_def)

section \<open>Unique storage keys\<close>

lemma ensureUniqueKey_loop_fresh:
  "ensureUniqueKey_loop baseKey existingKeys counter \<notin> set existingKeys"
proof (induction baseKey existingKeys counter rule: ensureUniqueKey_loop.induct)
  case (1 baseKey existingKeys counter)
  show ?case
  proof (cases "candidateKey baseKey counter \<in> set existingKeys")
    case True
    then have "ensureUniqueKey_loop baseKey existingKeys counter
        = ensureUniqueKey_loop baseKey existingKeys (counter + 1)"
      by (subst ensureUniqueKey_loop.simps) simp
    with True "1.IH" show ?thesis
      by simp
  next
    case False
    then have "ensureUniqueKey_loop baseKey existingKeys counter = candidateKey baseKey counter"
      by (subst ensureUniqueKey_loop.simps) simp
    with False show ?thesis
      by simp
  qed
qed

lemma ensureUniqueKey_loop_suffix:
  "\<exists>n\<ge>counter. ensureUniqueKey_loop baseKey existingKeys counter = candidateKey baseKey n \<and>
     (\<forall>m. counter \<le> m \<and> m < n \<longrightarrow> candidateKey baseKey m \<in> set existingKeys)"
proof (induction baseKey existingKeys counter rule: ensureUniqueKey_loop.induct)
  case (1 baseKey existingKeys counter)
  show ?case
  proof (cases "candidateKey baseKey counter \<in> set existingKeys")
    case True
    then have eq: "ensureUniqueKey_loop baseKey existingKeys counter
        = ensureUniqueKey_loop baseKey existingKeys (counter + 1)"
      by (subst ensureUniqueKey_loop.simps) simp
    from "1.IH" [OF True] obtain n where n: "counter + 1 \<le> n"
      "ensureUniqueKey_loop baseKey existingKeys (counter + 1) = candidateKey baseKey n"
      "\<forall>m. counter + 1 \<le> m \<and> m < n \<longrightarrow> candidateKey baseKey m \<in> set existingKeys"
      by blast
    have "\<forall>m. counter \<le> m \<and> m < n \<longrightarrow> candidateKey baseKey m \<in> set existingKeys"
    proof (intro allI impI)
      fix m assume m: "counter \<le> m \<and> m < n"
      show "candidateKey baseKey m \<in> set existingKeys"
      proof (cases "m = counter")
        case True
        with \<open>candidateKey baseKey counter \<in> set existingKeys\<close> show ?thesis by simp
      next
        case False
        with m have "counter + 1 \<le> m \<and> m < n" by simp
        with n(3) show ?thesis by blast
      qed
    qed
    with n(1,2) eq show ?thesis
      by (intro exI [of _ n]) simp
  next
    case False
    then have "ensureUniqueKey_loop baseKey existingKeys counter = candidateKey baseKey counter"
      by (subst ensureUniqueKey_loop.simps) simp
    then show ?thesis
      by (intro exI [of _ counter]) auto
  qed
qed

lemma ensureUniqueKey_fresh: "ensureUniqueKey baseKey existingKeys \<notin> set existingKeys"
  by (simp add: ensureUniqueKey_def ensureUniqueKey_loop_fresh)

lemma FieldDesigner_handleAddField_key:
  assumes "FieldDesigner_handleAddField createSlug newId fs draft = Some field"
  shows "key field \<notin> key ` set fs"
proof -
  from assms obtain baseKey where "key field = ensureUniqueKey baseKey (map key fs)"
    by (auto simp: FieldDesigner_handleAddField_def Let_def split: if_splits)
  then show ?thesis
    using ensureUniqueKey_fresh [of baseKey "map key fs"] by simp
qed

lemma addThroughDesigner_distinct:
  assumes "distinct (map key (fields_s st))"
  shows "distinct (map key (fields_s (addThroughDesigner createSlug st request)))"
proof (cases "FieldDesigner_handleAddField createSlug (fst request) (fields_s st) (snd request)")
  case None
  with assms show ?thesis
    by (simp add: addThroughDesigner_def)
next
  case (Some field)
  then have "key field \<notin> key ` set (fields_s st)"
    by (rule FieldDesigner_handleAddField_key)
  with assms Some show ?thesis
    by (simp add: addThroughDesigner_def handleAddField_def)
qed

text \<open>
  C5.  The key that \<open>ensureUniqueKey\<close> returns is not among the existing keys: it is
  the base key when that is free, and otherwise the base key with the first suffix
  \<open>-1\<close>, \<open>-2\<close>, ... that is free.  So starting from fields with pairwise distinct
  keys, any sequence of additions through the designer, whatever the labels and
  whatever the slug function makes of them, leaves the keys pairwise distinct.
\<close>

theorem designer_additions_keep_keys_distinct:
  "ensureUniqueKey baseKey existingKeys \<notin> set existingKeys \<and>
   (baseKey \<notin> set existingKeys \<longrightarrow> ensureUniqueKey baseKey existingKeys = baseKey) \<and>
   (baseKey \<in> set existingKeys \<longrightarrow>
      (\<exists>n\<ge>1. ensureUniqueKey baseKey existingKeys = candidateKey baseKey n \<and>
         (\<forall>m. 1 \<le> m \<and> m < n \<longrightarrow> candidateKey baseKey m \<in> set existingKeys))) \<and>
   (distinct (map key (fields_s st)) \<longrightarrow>
      distinct (map key (fields_s (foldl (addThroughDesigner createSlug) st requests))))"
proof -
  have "distinct (map key (fields_s st)) \<Longrightarrow>
      distinct (map key (fields_s (foldl (addThroughDesigner createSlug) st requests)))"
    by (induction requests arbitrary: st) (simp_all add: addThroughDesigner_distinct)
  moreover have "baseKey \<in> set existingKeys \<longrightarrow>
      (\<exists>n\<ge>1. ensureUniqueKey baseKey existingKeys = candidateKey baseKey n \<and>
         (\<forall>m. 1 \<le> m \<and> m < n \<longrightarrow> candidateKey baseKey m \<in> set existingKeys))"
    using ensureUniqueKey_loop_suffix [of 1 baseKey existingKeys]
    by (simp add: ensureUniqueKey_def)
  moreover have "baseKey \<notin> set existingKeys \<longrightarrow> ensureUniqueKey baseKey existingKeys = baseKey"
    by (simp add: ensureUniqueKey_def)
  moreover note ensureUniqueKey_fresh [of baseKey existingKeys]
  ultimately show ?thesis
    by blast
qed

lemma trim_examples:
  "trim ''Status'' = ''Status''" "trim ''???'' = ''???''" "trim ''Priority'' = ''Priority''"
  by (simp_all add: trim_def isWhiteSpace_def)

lemma digitChar_examples:
  "digitChar 1 = CHR ''1''" "digitChar 2 = CHR ''2''" "digitChar 8 = CHR ''8''"
  unfolding digitChar_def by code_simp+

lemma numberToDigits_examples:
  "numberToDigits 1 = ''1''" "numberToDigits 2 = ''2''" "numberToDigits 8 = ''8''"
  "numberToDigits (Suc 0) = ''1''" "numberToDigits (Suc (Suc 0)) = ''2''"
  using digitChar_examples by (simp_all add: numberToDigits.simps numeral_2_eq_2)

lemma numberToDigits_eight:
  "numberToDigits (Suc (Suc (Suc (Suc (Suc (Suc (Suc (Suc 0)))))))) = ''8''"
proof -
  have "Suc (Suc (Suc (Suc (Suc (Suc (Suc (Suc 0))))))) = (8::nat)"
    by simp
  then show ?thesis
    by (simp only: numberToDigits_examples)
qed

theorem designer_additions_keep_keys_distinct_witness:
  "distinct (map key (fields_s exampleState)) \<and>
   ''status'' \<in> set (map key (fields_s exampleState)) \<and>
   ensureUniqueKey ''status'' (map key (fields_s exampleState)) = ''status-1'' \<and>
   map key (fields_s (foldl (addThroughDesigner exampleSlug) exampleState
       [(''field-a'', textDraft ''Status''), (''field-b'', textDraft ''Status''),
        (''field-c'', textDraft ''???'')]))
     = [''company'', ''primary-contact'', ''email'', ''status'', ''notes'',
        ''status-1'', ''status-2'', ''field-8''] \<and>
   distinct (map key (fields_s (foldl (addThroughDesigner exampleSlug) exampleState
       [(''field-a'', textDraft ''Status''), (''field-b'', textDraft ''Status''),
        (''field-c'', textDraft ''???'')])))"
proof -
  have keys: "map key (fields_s exampleState)
      = [''company'', ''primary-contact'', ''email'', ''status'', ''notes'']"
    by (simp add: exampleState_def DEFAULT_FIELDS_def)
  have first: "ensureUniqueKey ''status'' (map key (fields_s exampleState)) = ''status-1''"
    unfolding keys
    by (simp add: ensureUniqueKey_def ensureUniqueKey_loop.simps candidateKey_def
        numberToDigits_examples)
  have run: "map key (fields_s (foldl (addThroughDesigner exampleSlug) exampleState
       [(''field-a'', textDraft ''Status''), (''field-b'', textDraft ''Status''),
        (''field-c'', textDraft ''???'')]))
     = [''company'', ''primary-contact'', ''email'', ''status'', ''notes'',
        ''status-1'', ''status-2'', ''field-8'']"
    by (simp add: addThroughDesigner_def FieldDesigner_handleAddField_def handleAddField_def
        canSubmit_def textDraft_def exampleSlug_def trim_examples exampleState_def
        DEFAULT_FIELDS_def ensureUniqueKey_def ensureUniqueKey_loop.simps candidateKey_def
        numberToDigits_examples numberToDigits_eight Let_def)
  from designer_additions_keep_keys_distinct
      [of "''status''" "map key (fields_s exampleState)" exampleState exampleSlug
        "[(''field-a'', textDraft ''Status''), (''field-b'', textDraft ''Status''),
          (''field-c'', textDraft ''???'')]"]
    keys first run
  show ?thesis
    by simp
qed

section \<open>Options of select fields\<close>

lemma parseOptions_no_empty_item: "[] \<notin> set (parseOptions text)"
  by (simp add: parseOptions_def)

lemma FieldDesigner_handleAddField_options:
  assumes "FieldDesigner_handleAddField createSlug newId fs draft = Some field"
  shows "type_f field = draft_type draft \<and>
         options field = (if draft_type draft = Select
                          then Some (parseOptions (draft_options draft)) else None)"
  using assms
  by (auto simp: FieldDesigner_handleAddField_def Let_def split: if_splits)

lemma addThroughDesigner_select:
  assumes "selectOptionsDefined (fields_s st)"
  shows "selectOptionsDefined (fields_s (addThroughDesigner createSlug st request))"
proof (cases "FieldDesigner_handleAddField createSlug (fst request) (fields_s st) (snd request)")
  case None
  with assms show ?thesis
    by (simp add: addThroughDesigner_def)
next
  case (Some field)
  from FieldDesigner_handleAddField_options [OF Some]
  have "type_f field = Select \<longrightarrow>
      (case options field of None \<Rightarrow> False | Some opts \<Rightarrow> [] \<notin> set opts)"
    by (simp add: parseOptions_no_empty_item)
  with assms Some show ?thesis
    by (simp add: addThroughDesigner_def handleAddField_def selectOptionsDefined_def)
qed

lemma handleSave_applied:
  "type_f (applyPatch field (handleSave field editor)) = type_f field \<and>
   options (applyPatch field (handleSave field editor))
     = (if type_f field = Select then Some (parseOptions (localOptions editor))
        else options field)"
  by (simp add: applyPatch_def handleSave_def)

lemma editThroughDesigner_select:
  assumes inv: "selectOptionsDefined (fields_s st)"
    and mem: "field \<in> set (fields_s st)"
    and ids: "distinct (map id_f (fields_s st))"
  shows "selectOptionsDefined (fields_s (editThroughDesigner field editor st))"
proof -
  from ids have "inj_on id_f (set (fields_s st))"
    by (simp add: distinct_map)
  with mem have same: "\<forall>g \<in> set (fields_s st). id_f g = id_f field \<longrightarrow> g = field"
    by (auto dest: inj_onD)
  from mem obtain target where "find (\<lambda>g. id_f g = id_f field) (fields_s st) = Some target"
    by (cases "find (\<lambda>g. id_f g = id_f field) (fields_s st)") (auto simp: find_None_iff)
  then have fs: "fields_s (editThroughDesigner field editor st)
      = map (\<lambda>g. if id_f g = id_f field then applyPatch g (handleSave field editor) else g)
          (fields_s st)"
    by (simp add: editThroughDesigner_def handleUpdateField_def)
  have good: "type_f (applyPatch field (handleSave field editor)) = Select \<longrightarrow>
      (case options (applyPatch field (handleSave field editor)) of
         None \<Rightarrow> False | Some opts \<Rightarrow> [] \<notin> set opts)"
    by (simp add: handleSave_applied parseOptions_no_empty_item)
  show ?thesis
    unfolding fs selectOptionsDefined_def list_all_iff
  proof
    fix g' assume "g' \<in> set (map (\<lambda>g. if id_f g = id_f field
        then applyPatch g (handleSave field editor) else g) (fields_s st))"
    then obtain g where g: "g \<in> set (fields_s st)"
      and g': "g' = (if id_f g = id_f field then applyPatch g (handleSave field editor) else g)"
      by auto
    show "type_f g' = Select \<longrightarrow>
        (case options g' of None \<Rightarrow> False | Some opts \<Rightarrow> [] \<notin> set opts)"
    proof (cases "id_f g = id_f field")
      case True
      with g same have "g = field" by blast
      with True g' good show ?thesis by simp
    next
      case False
      with g g' inv show ?thesis
        by (simp add: selectOptionsDefined_def list_all_iff)
    qed
  qed
qed

text \<open>
  C9, as the code has it.  If every select field has an options list with no empty
  item, then so it is after an addition through the designer, and after an edit through
  the designer of a field of the list whose ids are pairwise distinct.  The list may be
  empty.
\<close>

theorem designer_keeps_select_options:
  assumes "selectOptionsDefined (fields_s st)"
  shows "selectOptionsDefined (fields_s (addThroughDesigner createSlug st request)) \<and>
         (field \<in> set (fields_s st) \<and> distinct (map id_f (fields_s st)) \<longrightarrow>
            selectOptionsDefined (fields_s (editThroughDesigner field editor st)))"
  using assms addThroughDesigner_select editThroughDesigner_select by blast

lemma parseOptions_examples:
  "parseOptions ''New, Done'' = [''New'', ''Done'']"
  "parseOptions '''' = []"
  by (simp_all add: parseOptions_def trim_def isWhiteSpace_def)

theorem designer_keeps_select_options_witness:
  "selectOptionsDefined (fields_s exampleState) \<and>
   selectOptionsDefined (fields_s (addThroughDesigner exampleSlug exampleState
       (''field-a'', selectDraft ''Status'' ''New, Done''))) \<and>
   options (last (fields_s (addThroughDesigner exampleSlug exampleState
       (''field-a'', selectDraft ''Status'' ''New, Done'')))) = Some [''New'', ''Done''] \<and>
   DEFAULT_FIELDS ! 3 \<in> set (fields_s exampleState) \<and>
   distinct (map id_f (fields_s exampleState)) \<and>
   selectOptionsDefined (fields_s
       (editThroughDesigner (DEFAULT_FIELDS ! 3) (exampleEditor ''New, Done'') exampleState)) \<and>
   map options (fields_s
       (editThroughDesigner (DEFAULT_FIELDS ! 3) (exampleEditor ''New, Done'') exampleState))
     = [None, None, None, Some [''New'', ''Done''], None]"
proof -
  have inv: "selectOptionsDefined (fields_s exampleState)"
    by (simp add: selectOptionsDefined_def exampleState_def DEFAULT_FIELDS_def)
  have mem: "DEFAULT_FIELDS ! 3 \<in> set (fields_s exampleState) \<and>
      distinct (map id_f (fields_s exampleState))"
    by (simp add: exampleState_def DEFAULT_FIELDS_def)
  have added: "options (last (fields_s (addThroughDesigner exampleSlug exampleState
       (''field-a'', selectDraft ''Status'' ''New, Done'')))) = Some [''New'', ''Done'']"
    by (simp add: addThroughDesigner_def FieldDesigner_handleAddField_def handleAddField_def
        canSubmit_def selectDraft_def trim_examples parseOptions_examples Let_def)
  have edited: "map options (fields_s
       (editThroughDesigner (DEFAULT_FIELDS ! 3) (exampleEditor ''New, Done'') exampleState))
     = [None, None, None, Some [''New'', ''Done''], None]"
    by (simp add: editThroughDesigner_def handleUpdateField_def handleSave_def applyPatch_def
        exampleEditor_def exampleState_def DEFAULT_FIELDS_def parseOptions_examples)
  from designer_keeps_select_options
      [OF inv, of exampleSlug "(''field-a'', selectDraft ''Status'' ''New, Done'')"
        "DEFAULT_FIELDS ! 3" "exampleEditor ''New, Done''"]
    inv mem added edited
  show ?thesis
    by blast
qed

text \<open>
  C9 as stated fails: adding a select field while the options text is empty (as it is in
  a fresh draft) stores the field with the empty options list, and so does saving a
  select field's editor with the options text cleared.
\<close>

theorem designer_empty_options_counterexample:
  "canSubmit (selectDraft ''Status'' '''') \<and>
   type_f (last (fields_s (addThroughDesigner exampleSlug exampleState
       (''field-a'', selectDraft ''Status'' '''')))) = Select \<and>
   options (last (fields_s (addThroughDesigner exampleSlug exampleState
       (''field-a'', selectDraft ''Status'' '''')))) = Some [] \<and>
   map type_f (fields_s
       (editThroughDesigner (DEFAULT_FIELDS ! 3) (exampleEditor '''') exampleState))
     = [Text, Text, Email, Select, Textarea] \<and>
   map options (fields_s
       (editThroughDesigner (DEFAULT_FIELDS ! 3) (exampleEditor '''') exampleState))
     = [None, None, None, Some [], None]"
  by (simp add: addThroughDesigner_def FieldDesigner_handleAddField_def handleAddField_def
      canSubmit_def selectDraft_def trim_examples parseOptions_examples Let_def
      editThroughDesigner_def handleUpdateField_def handleSave_def applyPatch_def
      exampleEditor_def exampleState_def DEFAULT_FIELDS_def)

section \<open>Filtering and ordering the records\<close>

lemma filteredEntries_blank_query:
  "trim filterText = [] \<Longrightarrow>
     filteredEntries sort_js numberToString fs es filterText
       = Inr (sort_js compareUpdatedAt es)"
  by (simp add: filteredEntries_def)

lemma filter_js_none: "\<forall>x \<in> set xs. p x = Inr False \<Longrightarrow> filter_js p xs = Inr []"
  by (induction xs) simp_all

lemma filteredEntries_no_match:
  assumes "trim filterText \<noteq> []"
    and "set (sort_js compareUpdatedAt es) \<subseteq> set es"
    and "\<forall>entry \<in> set es.
           entryMatches numberToString fs (toLowerCase (trim filterText)) entry = Inr False"
  shows "filteredEntries sort_js numberToString fs es filterText = Inr []"
proof -
  from assms(2,3) have "\<forall>entry \<in> set (sort_js compareUpdatedAt es).
      entryMatches numberToString fs (toLowerCase (trim filterText)) entry = Inr False"
    by blast
  then have "filter_js (entryMatches numberToString fs (toLowerCase (trim filterText)))
      (sort_js compareUpdatedAt es) = Inr []"
    by (rule filter_js_none)
  with assms(1) show ?thesis
    by (simp add: filteredEntries_def Let_def)
qed

lemma stringLess_irrefl: "\<not> stringLess s s"
  by (induction s) simp_all

lemma stringLess_asym: "stringLess a b \<Longrightarrow> \<not> stringLess b a"
  by (induction a b rule: stringLess.induct) auto

lemma stringLess_total: "a \<noteq> b \<Longrightarrow> stringLess a b \<or> stringLess b a"
  by (induction a b rule: stringLess.induct) (auto simp: neq_iff)

lemma compareUpdatedAt_distinct:
  "updatedAt a \<noteq> updatedAt b \<Longrightarrow> compareUpdatedAt a b = - compareUpdatedAt b a"
  using stringLess_asym [of "updatedAt a" "updatedAt b"]
    stringLess_total [of "updatedAt a" "updatedAt b"]
  by (auto simp: compareUpdatedAt_def)

text \<open>
  C7, the tie-break.  For two records with the same \<open>updatedAt\<close> the comparator answers
  \<open>-1\<close> whichever way round it is asked (and \<open>-1\<close> for a record against itself), never
  \<open>0\<close>: it tells the engine that each of the two comes before the other, so keeping them
  in their original order is not what the code asks for.
\<close>

theorem compareUpdatedAt_tie:
  "updatedAt tiedFirst = updatedAt tiedSecond \<and>
   compareUpdatedAt tiedFirst tiedSecond = - 1 \<and>
   compareUpdatedAt tiedSecond tiedFirst = - 1 \<and>
   compareUpdatedAt tiedFirst tiedFirst = - 1"
  by (simp add: compareUpdatedAt_def tiedFirst_def tiedSecond_def stringLess_irrefl)

end
